theory Spec2Isabelle
  imports Main
begin

section \<open>JavaScript values as the adapter sees them\<close>

text \<open>
  The adapter in \<^verbatim>\<open>src/integrations/expressApollo.ts\<close> works on dynamically typed
  values: the parsed request body, the fields of a request item, the data and the
  formatted errors of a result. They are modelled by one datatype. An object is the list
  of its own properties in insertion order; reading a property takes the first binding of
  the key. Numbers are restricted to the integers.
\<close>

datatype jsval =
    JUndefined
  | JNull
  | JBool bool
  | JNum int
  | JStr string
  | JArr "jsval list"
  | JObj "(string \<times> jsval) list"

text \<open>
  A value that is thrown: the three error classes the adapter can meet (\<open>new Error(msg)\<close>,
  the \<open>TypeError\<close> of a property read on \<open>null\<close> or \<open>undefined\<close>, the \<open>SyntaxError\<close> of
  \<open>JSON.parse\<close>), and any other value a callback throws or rejects with.
\<close>

datatype js_error =
    Error string
  | TypeError string
  | SyntaxError string
  | Thrown jsval

text \<open>
  An error formatter (\<open>graphql.formatError\<close>, or the configured \<open>formatError\<close>): it
  returns the formatted error, or raises.
\<close>

type_synonym formatter = "js_error \<Rightarrow> js_error + jsval"

text \<open>ToBoolean: what \<open>!v\<close>, \<open>a || b\<close> and \<open>a && b\<close> test.\<close>

fun truthy :: "jsval \<Rightarrow> bool" where
  "truthy JUndefined = False"
| "truthy JNull = False"
| "truthy (JBool b) = b"
| "truthy (JNum n) = (n \<noteq> 0)"
| "truthy (JStr s) = (s \<noteq> [])"
| "truthy (JArr xs) = True"
| "truthy (JObj kvs) = True"

text \<open>\<open>a || b\<close>\<close>

definition js_or :: "jsval \<Rightarrow> jsval \<Rightarrow> jsval" where
  "js_or a b = (if truthy a then a else b)"

text \<open>\<open>Array.isArray(v)\<close>\<close>

fun isArray :: "jsval \<Rightarrow> bool" where
  "isArray (JArr xs) = True"
| "isArray v = False"

text \<open>
  The property read \<open>v.k\<close>, for the keys the adapter reads (\<open>query\<close>, \<open>operationName\<close>,
  \<open>variables\<close>), which no prototype defines: it raises a \<open>TypeError\<close> on \<open>undefined\<close> and
  \<open>null\<close>, finds an own property of an object, and is \<open>undefined\<close> otherwise.
\<close>

fun get_prop :: "jsval \<Rightarrow> string \<Rightarrow> js_error + jsval" where
  "get_prop JUndefined k = Inl (TypeError k)"
| "get_prop JNull k = Inl (TypeError k)"
| "get_prop (JObj kvs) k = Inr (case map_of kvs k of None \<Rightarrow> JUndefined | Some v \<Rightarrow> v)"
| "get_prop v k = Inr JUndefined"


section \<open>\<open>JSON.stringify\<close>\<close>

text \<open>
  The serialisation of the runtime, on the values above: an \<open>undefined\<close> array element is
  written \<open>null\<close>, a property whose value is \<open>undefined\<close> is left out, and \<open>undefined\<close>
  itself has no text. Strings are quoted with the escapes of the JSON grammar.
\<close>

function nat_to_string :: "nat \<Rightarrow> string" where
  "nat_to_string n =
     (if n < 10 then [''0123456789'' ! n]
      else nat_to_string (n div 10) @ [''0123456789'' ! (n mod 10)])"
  by pat_completeness auto
termination
  by (relation "measure id") auto

declare nat_to_string.simps [simp del]

definition int_to_string :: "int \<Rightarrow> string" where
  "int_to_string i = (if i < 0 then CHR ''-'' # nat_to_string (nat (- i)) else nat_to_string (nat i))"

definition quote_char :: "char \<Rightarrow> string" where
  "quote_char c =
     (if c = CHR 0x22 then [CHR 0x5C, CHR 0x22]
      else if c = CHR 0x5C then [CHR 0x5C, CHR 0x5C]
      else if c = CHR 0x08 then [CHR 0x5C, CHR ''b'']
      else if c = CHR 0x0C then [CHR 0x5C, CHR ''f'']
      else if c = CHR 0x0A then [CHR 0x5C, CHR ''n'']
      else if c = CHR 0x0D then [CHR 0x5C, CHR ''r'']
      else if c = CHR 0x09 then [CHR 0x5C, CHR ''t'']
      else if (of_char c :: nat) < 32 then
        [CHR 0x5C, CHR ''u'', CHR ''0'', CHR ''0'',
         ''0123456789abcdef'' ! (of_char c div 16), ''0123456789abcdef'' ! (of_char c mod 16)]
      else [c])"

definition quote :: "string \<Rightarrow> string" where
  "quote s = [CHR 0x22] @ concat (map quote_char s) @ [CHR 0x22]"

fun join_comma :: "string list \<Rightarrow> string" where
  "join_comma [] = []"
| "join_comma [t] = t"
| "join_comma (t # ts) = t @ '','' @ join_comma ts"

fun JSON_stringify :: "jsval \<Rightarrow> string option"
  and stringify_elements :: "jsval list \<Rightarrow> string list"
  and stringify_members :: "(string \<times> jsval) list \<Rightarrow> string list" where
  "JSON_stringify JUndefined = None"
| "JSON_stringify JNull = Some ''null''"
| "JSON_stringify (JBool b) = Some (if b then ''true'' else ''false'')"
| "JSON_stringify (JNum n) = Some (int_to_string n)"
| "JSON_stringify (JStr s) = Some (quote s)"
| "JSON_stringify (JArr xs) = Some (''['' @ join_comma (stringify_elements xs) @ '']'')"
| "JSON_stringify (JObj kvs) = Some (''{'' @ join_comma (stringify_members kvs) @ ''}'')"
| "stringify_elements [] = []"
| "stringify_elements (x # xs) =
     (case JSON_stringify x of None \<Rightarrow> ''null'' | Some t \<Rightarrow> t) # stringify_elements xs"
| "stringify_members [] = []"
| "stringify_members ((k, v) # kvs) =
     (case JSON_stringify v of
        None \<Rightarrow> stringify_members kvs
      | Some t \<Rightarrow> (quote k @ '':'' @ t) # stringify_members kvs)"

section \<open>The data model of the adapter\<close>

text \<open>
  \<open>graphql.GraphQLResult\<close>, the element type of \<open>responses\<close>: a field holds what reading
  it gives, so \<open>data = JUndefined\<close> is a result with no data, and \<open>errors = None\<close> one with
  no errors (when present, \<open>errors\<close> is an array, which is truthy even when empty).
\<close>

record GraphQLResult =
  data :: jsval
  errors :: "jsval list option"

text \<open>The result as the object \<open>JSON.stringify\<close> receives.\<close>

definition result_json :: "GraphQLResult \<Rightarrow> jsval" where
  "result_json r =
     JObj ((if data r = JUndefined then [] else [(''data'', data r)]) @
           (case errors r of None \<Rightarrow> [] | Some es \<Rightarrow> [(''errors'', JArr es)]))"

text \<open>Values the adapter only passes on to the executor.\<close>

typedecl LogFunction
typedecl ValidationRule
typedecl ResponseFormatter

text \<open>The object literal \<open>params\<close> that \<open>runQuery\<close> receives; \<open>'s\<close> is the schema.\<close>

record 's QueryParams =
  p_schema :: 's
  p_query :: jsval
  p_variables :: jsval
  p_rootValue :: jsval
  p_operationName :: jsval
  p_logFunction :: "LogFunction option"
  p_validationRules :: "ValidationRule list option"
  p_formatError :: formatter
  p_formatResponse :: "ResponseFormatter option"

text \<open>
  \<open>ExpressApolloOptions\<close>. An optional field is \<open>None\<close> (or \<open>JUndefined\<close>) when absent.
  Both callbacks may raise: \<open>formatParams\<close> is called inside the \<open>try\<close> block,
  \<open>formatError\<close> inside the \<open>catch\<close> block.
\<close>

record 's ExpressApolloOptions =
  schema :: 's
  formatError :: "formatter option"
  rootValue :: jsval
  context_value :: jsval
  logFunction :: "LogFunction option"
  formatParams :: "('s QueryParams \<Rightarrow> js_error + 's QueryParams) option"
  validationRules :: "ValidationRule list option"
  formatResponse :: "ResponseFormatter option"

text \<open>
  The part of \<open>express.Request\<close> the two middlewares read: the method, the parsed body
  (\<open>JUndefined\<close> when no body parser ran) and the parsed query string (string-valued
  parameters; \<open>None\<close> when \<open>req.query\<close> is not set).
\<close>

record Request =
  req_method :: string
  req_body :: jsval
  req_query :: "(string \<times> string) list option"

text \<open>
  The part of \<open>express.Response\<close> the middlewares write: the status code, the headers they
  set, and the argument of \<open>res.send\<close>, which ends the response.
\<close>

record Response =
  statusCode :: nat
  headers :: "string \<rightharpoonup> string"
  sent :: "string option"
  finished :: bool

definition res_status :: "nat \<Rightarrow> Response \<Rightarrow> Response" where
  "res_status code res = res\<lparr>statusCode := code\<rparr>"

definition res_setHeader :: "string \<Rightarrow> string \<Rightarrow> Response \<Rightarrow> Response" where
  "res_setHeader name v res = res\<lparr>headers := (headers res)(name \<mapsto> v)\<rparr>"

definition res_set :: "string \<Rightarrow> string \<Rightarrow> Response \<Rightarrow> Response" where
  "res_set name v res = res\<lparr>headers := (headers res)(name \<mapsto> v)\<rparr>"

definition res_send :: "string option \<Rightarrow> Response \<Rightarrow> Response" where
  "res_send chunk res = res\<lparr>sent := chunk, finished := True\<rparr>"

text \<open>\<open>GraphiQL.GraphiQLData\<close>, the argument of both \<open>renderGraphiQL\<close> functions.\<close>

record GraphiQLData =
  g_endpointURL :: string
  g_query :: jsval
  g_variables :: jsval
  g_operationName :: jsval

text \<open>
  What the adapter imports and calls: the executor \<open>runQuery\<close> (awaited; it may reject),
  the default formatter \<open>graphql.formatError\<close> (it may raise), \<open>JSON.parse\<close> (it raises on
  malformed text) and the template renderer \<open>GraphiQL.renderGraphiQL\<close>.
\<close>

record 's Imports =
  runQuery :: "'s QueryParams \<Rightarrow> js_error + GraphQLResult"
  graphql_formatError :: formatter
  JSON_parse :: "string \<Rightarrow> js_error + jsval"
  GraphiQL_renderGraphiQL :: "GraphiQLData \<Rightarrow> string"


section \<open>The request handler \<open>graphqlHTTP\<close>\<close>

text \<open>
  Lines 90 to 109 of the \<open>try\<close> block: the three property reads, the parse of a textual
  \<open>variables\<close>, and the object literal \<open>params\<close>.
\<close>

definition assemble_params ::
  "'s Imports \<Rightarrow> 's ExpressApolloOptions \<Rightarrow> formatter \<Rightarrow> jsval
    \<Rightarrow> js_error + 's QueryParams" where
  "assemble_params imp optionsObject formatErrorFn requestParams =
     (case get_prop requestParams ''query'' of
        Inl e \<Rightarrow> Inl e
      | Inr query \<Rightarrow>
     (case get_prop requestParams ''operationName'' of
        Inl e \<Rightarrow> Inl e
      | Inr operationName \<Rightarrow>
     (case get_prop requestParams ''variables'' of
        Inl e \<Rightarrow> Inl e
      | Inr variables \<Rightarrow>
     (case (case variables of JStr text \<Rightarrow> JSON_parse imp text | _ \<Rightarrow> Inr variables) of
        Inl e \<Rightarrow> Inl e
      | Inr variables' \<Rightarrow>
          Inr \<lparr> p_schema = schema optionsObject,
                p_query = query,
                p_variables = variables',
                p_rootValue = rootValue optionsObject,
                p_operationName = operationName,
                p_logFunction = logFunction optionsObject,
                p_validationRules = validationRules optionsObject,
                p_formatError = formatErrorFn,
                p_formatResponse = formatResponse optionsObject \<rparr>))))"

text \<open>Lines 111 to 113: the configured transform of the parameters, if there is one.\<close>

definition apply_formatParams ::
  "'s ExpressApolloOptions \<Rightarrow> 's QueryParams \<Rightarrow> js_error + 's QueryParams" where
  "apply_formatParams optionsObject params =
     (case formatParams optionsObject of None \<Rightarrow> Inr params | Some f \<Rightarrow> f params)"

text \<open>
  Lines 90 to 117: the parameters the executor is to receive, after the transform and the
  check of their query.
\<close>

definition final_params ::
  "'s Imports \<Rightarrow> 's ExpressApolloOptions \<Rightarrow> formatter \<Rightarrow> jsval
    \<Rightarrow> js_error + 's QueryParams" where
  "final_params imp optionsObject formatErrorFn requestParams =
     (case assemble_params imp optionsObject formatErrorFn requestParams of
        Inl e \<Rightarrow> Inl e
      | Inr params \<Rightarrow>
     (case apply_formatParams optionsObject params of
        Inl e \<Rightarrow> Inl e
      | Inr params' \<Rightarrow>
          if \<not> truthy (p_query params') then Inl (Error ''Must provide query string.'')
          else Inr params'))"

text \<open>
  The whole \<open>try\<close> block: its outcome (the awaited result, or what was raised) and the
  calls of the executor it made.
\<close>

definition try_block ::
  "'s Imports \<Rightarrow> 's ExpressApolloOptions \<Rightarrow> formatter \<Rightarrow> jsval
    \<Rightarrow> (js_error + GraphQLResult) \<times> 's QueryParams list" where
  "try_block imp optionsObject formatErrorFn requestParams =
     (case final_params imp optionsObject formatErrorFn requestParams of
        Inl e \<Rightarrow> (Inl e, [])
      | Inr params \<Rightarrow> (runQuery imp params, [params]))"

text \<open>
  The \<open>catch\<close> block, line 121: the formatter is called on what was raised, with nothing
  around the call, so the block raises when the formatter does; otherwise it yields the
  object literal that is pushed.
\<close>

definition error_result :: "formatter \<Rightarrow> js_error \<Rightarrow> js_error + GraphQLResult" where
  "error_result formatErrorFn e =
     (case formatErrorFn e of
        Inl e' \<Rightarrow> Inl e'
      | Inr formatted \<Rightarrow> Inr \<lparr> data = JUndefined, errors = Some [formatted] \<rparr>)"

text \<open>
  One iteration of the loop: the result it pushes, or what its \<open>catch\<close> block raised, and
  the executor calls it made.
\<close>

definition loop_body ::
  "'s Imports \<Rightarrow> 's ExpressApolloOptions \<Rightarrow> formatter \<Rightarrow> jsval
    \<Rightarrow> (js_error + GraphQLResult) \<times> 's QueryParams list" where
  "loop_body imp optionsObject formatErrorFn requestParams =
     (case try_block imp optionsObject formatErrorFn requestParams of
        (Inr result, calls) \<Rightarrow> (Inr result, calls)
      | (Inl e, calls) \<Rightarrow> (error_result formatErrorFn e, calls))"

text \<open>
  The \<open>for ... of\<close> loop over \<open>b\<close>, with \<open>responses\<close> and the executor calls made so far
  as its state. An iteration that raises ends the loop: the remaining items are not
  processed, and the loop yields what was raised and the executor calls made until then.
\<close>

fun for_loop ::
  "'s Imports \<Rightarrow> 's ExpressApolloOptions \<Rightarrow> formatter \<Rightarrow> jsval list
    \<Rightarrow> GraphQLResult list \<times> 's QueryParams list
    \<Rightarrow> js_error \<times> 's QueryParams list + GraphQLResult list \<times> 's QueryParams list" where
  "for_loop imp optionsObject formatErrorFn [] state = Inr state"
| "for_loop imp optionsObject formatErrorFn (requestParams # rest) (responses, executed) =
     (case loop_body imp optionsObject formatErrorFn requestParams of
        (Inl e, calls) \<Rightarrow> Inl (e, executed @ calls)
      | (Inr result, calls) \<Rightarrow>
          for_loop imp optionsObject formatErrorFn rest (responses @ [result], executed @ calls))"

text \<open>
  The argument of the factory: a configuration object, a function of the request whose
  awaited value is one (the function is taken to return: nothing in the handler recovers
  from it), or a falsy value.
\<close>

datatype 's options_arg =
    Falsy
  | OptionsObject "'s ExpressApolloOptions"
  | OptionsFunction "Request \<Rightarrow> 's ExpressApolloOptions"

text \<open>Lines 56 to 61: the configuration of this request.\<close>

definition resolve_options :: "'s options_arg \<Rightarrow> Request \<Rightarrow> js_error + 's ExpressApolloOptions" where
  "resolve_options options req =
     (case options of
        OptionsFunction f \<Rightarrow> Inr (f req)
      | OptionsObject obj \<Rightarrow> Inr obj
      | Falsy \<Rightarrow> Inl (TypeError ''formatError''))"

text \<open>Line 63: \<open>optionsObject.formatError || graphql.formatError\<close>.\<close>

definition formatErrorFn :: "'s Imports \<Rightarrow> 's ExpressApolloOptions \<Rightarrow> formatter" where
  "formatErrorFn imp optionsObject =
     (case formatError optionsObject of Some f \<Rightarrow> f | None \<Rightarrow> graphql_formatError imp)"

text \<open>
  The handler the factory returns, lines 55 to 136. It yields the response as the handler
  left it, or \<open>Inl\<close> what it raised (its promise rejects; the response is then as it was,
  since the handler writes to it only after the loop); either way with the executor calls
  it made.
\<close>

definition handler ::
  "'s Imports \<Rightarrow> 's options_arg \<Rightarrow> Request \<Rightarrow> Response
    \<Rightarrow> js_error \<times> 's QueryParams list + Response \<times> 's QueryParams list" where
  "handler imp options req res =
     (case resolve_options options req of
        Inl e \<Rightarrow> Inl (e, [])
      | Inr optionsObject \<Rightarrow>
          if req_method req \<noteq> ''POST'' then
            Inr (res_send (Some ''Apollo Server supports only POST requests.'')
                   (res_status 405 (res_setHeader ''Allow'' ''POST'' res)), [])
          else if \<not> truthy (req_body req) then
            Inr (res_send
                   (Some ''POST body missing. Did you forget \"app.use(bodyParser.json())\"?'')
                   (res_status 500 res), [])
          else
            let isBatch = isArray (req_body req);
                b = (case req_body req of JArr items \<Rightarrow> items | single \<Rightarrow> [single])
            in
            (case for_loop imp optionsObject (formatErrorFn imp optionsObject) b ([], []) of
               Inl (e, executed) \<Rightarrow> Inl (e, executed)
             | Inr (responses, executed) \<Rightarrow>
                 let res' = res_set ''Content-Type'' ''application/json'' res in
                 if isBatch then
                   Inr (res_send (JSON_stringify (JArr (map result_json responses))) res', executed)
                 else
                   (case responses of
                      [] \<Rightarrow> Inl (TypeError ''errors'', executed)
                    | gqlResponse # _ \<Rightarrow>
                        let res'' =
                              (if errors gqlResponse \<noteq> None \<and> data gqlResponse = JUndefined
                               then res_status 400 res' else res')
                        in Inr (res_send (JSON_stringify (result_json gqlResponse)) res'',
                                executed))))"

text \<open>
  The factory, lines 45 to 53, on its argument list: \<open>options\<close> is the first argument, or
  \<open>undefined\<close> when there is none.
\<close>

definition graphqlHTTP ::
  "'s Imports \<Rightarrow> 's options_arg list
    \<Rightarrow> js_error + (Request \<Rightarrow> Response
                    \<Rightarrow> js_error \<times> 's QueryParams list + Response \<times> 's QueryParams list)" where
  "graphqlHTTP imp arguments =
     (let options = (case arguments of [] \<Rightarrow> Falsy | first # _ \<Rightarrow> first) in
      if options = Falsy then Inl (Error ''Apollo Server requires options.'')
      else if length arguments > 1 then
        Inl (Error (''Apollo Server expects exactly one argument, got '' @
                    nat_to_string (length arguments + 1)))
      else Inr (handler imp options))"

section \<open>The explorer middleware \<open>renderGraphiQL\<close>\<close>

text \<open>\<open>q.name || fallback\<close> on the parsed query string.\<close>

definition query_param :: "(string \<times> string) list \<Rightarrow> string \<Rightarrow> string \<Rightarrow> string" where
  "query_param q name fallback =
     (case map_of q name of
        None \<Rightarrow> fallback
      | Some v \<Rightarrow> if v = [] then fallback else v)"

text \<open>
  Lines 157 to 168: the object literal handed to the template renderer. \<open>JSON.parse\<close> may
  raise, and nothing catches it.
\<close>

definition explorer_data :: "'s Imports \<Rightarrow> GraphiQLData \<Rightarrow> Request \<Rightarrow> js_error + GraphiQLData" where
  "explorer_data imp options req =
     (let q = (case req_query req of None \<Rightarrow> [] | Some params \<Rightarrow> params);
          query = query_param q ''query'' [];
          variables = query_param q ''variables'' ''{}'';
          operationName = query_param q ''operationName'' []
      in
      case JSON_parse imp variables of
        Inl e \<Rightarrow> Inl e
      | Inr parsed \<Rightarrow>
          Inr \<lparr> g_endpointURL = g_endpointURL options,
                g_query = js_or (JStr query) (g_query options),
                g_variables = js_or parsed (g_variables options),
                g_operationName = js_or (JStr operationName) (g_operationName options) \<rparr>)"

text \<open>
  Lines 155 to 171: the middleware yields the response it sent, or \<open>Inl\<close> when it raises.
\<close>

definition renderGraphiQL ::
  "'s Imports \<Rightarrow> GraphiQLData \<Rightarrow> Request \<Rightarrow> Response \<Rightarrow> js_error + Response" where
  "renderGraphiQL imp options req res =
     (case explorer_data imp options req of
        Inl e \<Rightarrow> Inl e
      | Inr d \<Rightarrow>
          let graphiQLString = GraphiQL_renderGraphiQL imp d
          in Inr (res_send (Some graphiQLString) (res_set ''Content-Type'' ''text/html'' res)))"

section \<open>Derived notions and example collaborators\<close>

text \<open>
  What one request item contributes under the configuration of the request: the result
  pushed for it (or what its iteration raised) and the executor calls made for it.
\<close>

definition item_result ::
  "'s Imports \<Rightarrow> 's ExpressApolloOptions \<Rightarrow> jsval \<Rightarrow> js_error + GraphQLResult" where
  "item_result imp optionsObject item =
     fst (loop_body imp optionsObject (formatErrorFn imp optionsObject) item)"

definition item_calls :: "'s Imports \<Rightarrow> 's ExpressApolloOptions \<Rightarrow> jsval \<Rightarrow> 's QueryParams list" where
  "item_calls imp optionsObject item =
     snd (loop_body imp optionsObject (formatErrorFn imp optionsObject) item)"

text \<open>
  Concrete collaborators, used to run the handler on examples: the default formatter as
  the library has it (it raises on a \<open>null\<close> or \<open>undefined\<close> error and otherwise returns
  the error's message), an executor that echoes the variables and rejects the query
  \<open>boom\<close>, a \<open>JSON.parse\<close> that is right on the three texts the examples parse and on
  malformed text (the examples use no other text), and a template renderer that prints
  its argument.
\<close>

definition example_formatError :: formatter where
  "example_formatError e =
     (case e of
        Error m \<Rightarrow> Inr (JObj [(''message'', JStr m)])
      | TypeError m \<Rightarrow> Inr (JObj [(''message'', JStr m)])
      | SyntaxError m \<Rightarrow> Inr (JObj [(''message'', JStr m)])
      | Thrown v \<Rightarrow>
          if \<not> truthy v then Inl (Error ''Received null or undefined error.'')
          else (case get_prop v ''message'' of
                  Inl e' \<Rightarrow> Inl e'
                | Inr m \<Rightarrow> Inr (JObj [(''message'', m)])))"

definition example_runQuery :: "unit QueryParams \<Rightarrow> js_error + GraphQLResult" where
  "example_runQuery params =
     (if p_query params = JStr ''boom'' then Inl (Error ''executor failed'')
      else Inr \<lparr> data = JObj [(''echo'', p_variables params)], errors = None \<rparr>)"

definition example_JSON_parse :: "string \<Rightarrow> js_error + jsval" where
  "example_JSON_parse text =
     (if text = ''{}'' then Inr (JObj [])
      else if text = ''{\"a\":1}'' then Inr (JObj [(''a'', JNum 1)])
      else if text = ''null'' then Inr JNull
      else Inl (SyntaxError text))"

definition example_renderPage :: "GraphiQLData \<Rightarrow> string" where
  "example_renderPage d =
     (case JSON_stringify
             (JObj [(''endpointURL'', JStr (g_endpointURL d)), (''query'', g_query d),
                    (''variables'', g_variables d), (''operationName'', g_operationName d)]) of
        None \<Rightarrow> [] | Some page \<Rightarrow> page)"

definition example_imports :: "unit Imports" where
  "example_imports =
     \<lparr> runQuery = example_runQuery,
       graphql_formatError = example_formatError,
       JSON_parse = example_JSON_parse,
       GraphiQL_renderGraphiQL = example_renderPage \<rparr>"

definition example_options :: "unit ExpressApolloOptions" where
  "example_options =
     \<lparr> schema = (), formatError = None, rootValue = JUndefined, context_value = JUndefined,
       logFunction = None, formatParams = None, validationRules = None,
       formatResponse = None \<rparr>"

text \<open>A response nothing has written to yet, with the framework's default status.\<close>

definition fresh_response :: Response where
  "fresh_response = \<lparr> statusCode = 200, headers = Map.empty, sent = None, finished = False \<rparr>"

text \<open>A batch of two items: a query with textual variables, and an item without a query.\<close>

definition example_batch :: Request where
  "example_batch =
     \<lparr> req_method = ''POST'',
       req_body = JArr [JObj [(''query'', JStr ''{ a }''), (''variables'', JStr ''{\"a\":1}'')],
                        JObj []],
       req_query = None \<rparr>"

text \<open>Two single requests: one with a query, one without.\<close>

definition example_single :: Request where
  "example_single =
     \<lparr> req_method = ''POST'',
       req_body = JObj [(''query'', JStr ''{ a }''), (''variables'', JObj [])],
       req_query = None \<rparr>"

definition example_single_no_query :: Request where
  "example_single_no_query =
     \<lparr> req_method = ''POST'', req_body = JObj [(''variables'', JObj [])], req_query = None \<rparr>"

text \<open>A batch whose second item is \<open>null\<close>, between two items that have a query.\<close>

definition example_failing_batch :: Request where
  "example_failing_batch =
     \<lparr> req_method = ''POST'',
       req_body = JArr ([JObj [(''query'', JStr ''{ a }''), (''variables'', JObj [(''n'', JNum 7)])]]
                        @ JNull # [JObj [(''query'', JStr ''{ b }'')]]),
       req_query = None \<rparr>"

text \<open>
  Two configurations with a transform: one that blanks the query, one that supplies it;
  and two items with textual variables, well-formed and malformed.
\<close>

definition example_blanking_options :: "unit ExpressApolloOptions" where
  "example_blanking_options =
     example_options \<lparr> formatParams := Some (\<lambda>params. Inr (params \<lparr> p_query := JStr [] \<rparr>)) \<rparr>"

definition example_filling_options :: "unit ExpressApolloOptions" where
  "example_filling_options =
     example_options \<lparr> formatParams := Some (\<lambda>params. Inr (params \<lparr> p_query := JStr ''{ stored }'' \<rparr>)) \<rparr>"

definition example_item :: jsval where
  "example_item = JObj [(''query'', JStr ''{ a }''), (''variables'', JStr ''{\"a\":1}'')]"


text \<open>
  An explorer configuration with all three defaults, a request without query parameters,
  and one with \<open>?query=foo\<close>.
\<close>

definition example_explorer_options :: GraphiQLData where
  "example_explorer_options =
     \<lparr> g_endpointURL = ''/graphql'', g_query = JStr ''{ a }'',
       g_variables = JObj [(''a'', JNum 1)], g_operationName = JStr ''Op'' \<rparr>"

definition example_explorer_request :: Request where
  "example_explorer_request = \<lparr> req_method = ''GET'', req_body = JUndefined, req_query = Some [] \<rparr>"

definition example_explorer_request_foo :: Request where
  "example_explorer_request_foo =
     \<lparr> req_method = ''GET'', req_body = JUndefined, req_query = Some [(''query'', ''foo'')] \<rparr>"

text \<open>
  Two configurations whose transform throws \<open>undefined\<close>: for every item, and for the
  query \<open>{ b }\<close> only. Neither configures a formatter, so the default one is used.
\<close>

definition example_throwing_options :: "unit ExpressApolloOptions" where
  "example_throwing_options =
     example_options \<lparr> formatParams := Some (\<lambda>params. Inl (Thrown JUndefined)) \<rparr>"

definition example_selective_options :: "unit ExpressApolloOptions" where
  "example_selective_options =
     example_options
       \<lparr> formatParams :=
           Some (\<lambda>params. if p_query params = JStr ''{ b }'' then Inl (Thrown JUndefined)
                           else Inr params) \<rparr>"

text \<open>A batch of two queries, a batch of three, and a single query.\<close>

definition example_batch_of_two :: Request where
  "example_batch_of_two =
     \<lparr> req_method = ''POST'',
       req_body = JArr [JObj [(''query'', JStr ''{ a }'')], JObj [(''query'', JStr ''{ b }'')]],
       req_query = None \<rparr>"

definition example_batch_of_three :: Request where
  "example_batch_of_three =
     \<lparr> req_method = ''POST'',
       req_body = JArr [JObj [(''query'', JStr ''{ a }'')], JObj [(''query'', JStr ''{ b }'')],
                        JObj [(''query'', JStr ''{ c }'')]],
       req_query = None \<rparr>"

definition example_query :: Request where
  "example_query =
     \<lparr> req_method = ''POST'', req_body = JObj [(''query'', JStr ''{ a }'')], req_query = None \<rparr>"

text \<open>A configuration whose formatter returns the same object for every error.\<close>

definition example_total_options :: "unit ExpressApolloOptions" where
  "example_total_options =
     example_options \<lparr> formatError := Some (\<lambda>e. Inr (JObj [(''message'', JStr ''failed'')])) \<rparr>"

section \<open>The loop and the handler, characterised\<close>

text \<open>
  The loop returns exactly when every iteration does, with one result per item in
  order; the first iteration that raises ends it.
\<close>

lemma for_loop_returns:
  "map (\<lambda>item. fst (loop_body imp opts fmt item)) items = map Inr results \<Longrightarrow>
   for_loop imp opts fmt items (responses, executed) =
     Inr (responses @ results,
          executed @ concat (map (\<lambda>item. snd (loop_body imp opts fmt item)) items))"
proof (induction items arbitrary: results responses executed)
  case Nil
  then show ?case by simp
next
  case (Cons item items)
  then obtain r rs where results: "results = r # rs"
    and r: "fst (loop_body imp opts fmt item) = Inr r"
    and rs: "map (\<lambda>item. fst (loop_body imp opts fmt item)) items = map Inr rs"
    by (cases results) auto
  from r obtain calls where "loop_body imp opts fmt item = (Inr r, calls)"
    by (cases "loop_body imp opts fmt item") auto
  with Cons.IH [OF rs] results show ?case by simp
qed

lemma for_loop_raises:
  "map (\<lambda>item. fst (loop_body imp opts fmt item)) before = map Inr results \<Longrightarrow>
   fst (loop_body imp opts fmt item) = Inl e \<Longrightarrow>
   for_loop imp opts fmt (before @ item # after) (responses, executed) =
     Inl (e, executed @ concat (map (\<lambda>item. snd (loop_body imp opts fmt item)) before)
             @ snd (loop_body imp opts fmt item))"
proof (induction before arbitrary: results responses executed)
  case Nil
  then obtain calls where "loop_body imp opts fmt item = (Inl e, calls)"
    by (cases "loop_body imp opts fmt item") auto
  then show ?case by simp
next
  case (Cons first before)
  then obtain r rs where results: "results = r # rs"
    and r: "fst (loop_body imp opts fmt first) = Inr r"
    and rs: "map (\<lambda>item. fst (loop_body imp opts fmt item)) before = map Inr rs"
    by (cases results) auto
  from r obtain calls where "loop_body imp opts fmt first = (Inr r, calls)"
    by (cases "loop_body imp opts fmt first") auto
  with Cons.IH [OF rs Cons.prems(2)] show ?case by simp
qed

lemma for_loop_items:
  "map (item_result imp opts) items = map Inr results \<Longrightarrow>
   for_loop imp opts (formatErrorFn imp opts) items ([], []) =
     Inr (results, concat (map (item_calls imp opts) items))"
  using for_loop_returns [of imp opts "formatErrorFn imp opts" items results "[]" "[]"]
  by (simp add: item_result_def[abs_def] item_calls_def[abs_def])

lemma item_result_cases:
  "item_result imp opts item =
     (case fst (try_block imp opts (formatErrorFn imp opts) item) of
        Inr r \<Rightarrow> Inr r
      | Inl e \<Rightarrow> error_result (formatErrorFn imp opts) e)"
  by (cases "try_block imp opts (formatErrorFn imp opts) item")
     (auto simp: item_result_def loop_body_def split: sum.splits)

lemma item_result_returns:
  assumes "\<forall>e. fst (try_block imp opts (formatErrorFn imp opts) item) = Inl e \<longrightarrow>
             (\<exists>formatted. formatErrorFn imp opts e = Inr formatted)"
  shows "\<exists>r. item_result imp opts item = Inr r"
  using assms by (auto simp: item_result_cases error_result_def split: sum.splits)

lemma items_results_return:
  assumes "\<forall>item \<in> set items.
             \<forall>e. fst (try_block imp opts (formatErrorFn imp opts) item) = Inl e \<longrightarrow>
               (\<exists>formatted. formatErrorFn imp opts e = Inr formatted)"
  shows "\<exists>results. map (item_result imp opts) items = map Inr results"
  using assms
proof (induction items)
  case Nil
  then show ?case by simp
next
  case (Cons item items)
  then obtain rs where "map (item_result imp opts) items = map Inr rs" by auto
  moreover from Cons.prems obtain r where "item_result imp opts item = Inr r"
    using item_result_returns [of imp opts item] by auto
  ultimately have "map (item_result imp opts) (item # items) = map Inr (r # rs)" by simp
  then show ?case by blast
qed

lemma factory_handler:
  "graphqlHTTP imp [options] = Inr h \<Longrightarrow> h = handler imp options \<and> options \<noteq> Falsy"
  by (auto simp: graphqlHTTP_def split: if_splits)

lemma resolve_options_total:
  "options \<noteq> Falsy \<Longrightarrow> \<exists>opts. resolve_options options req = Inr opts"
  by (cases options) (simp_all add: resolve_options_def)

lemma handler_batch:
  assumes "resolve_options options req = Inr opts"
      and "req_method req = ''POST''" and "req_body req = JArr items"
      and "map (item_result imp opts) items = map Inr results"
  shows "handler imp options req res =
           Inr (res_send (JSON_stringify (JArr (map result_json results)))
                  (res_set ''Content-Type'' ''application/json'' res),
                concat (map (item_calls imp opts) items))"
  using assms by (simp add: handler_def for_loop_items)

lemma handler_single:
  assumes "resolve_options options req = Inr opts"
      and "req_method req = ''POST''" and "truthy (req_body req)" and "\<not> isArray (req_body req)"
      and "item_result imp opts (req_body req) = Inr gqlResponse"
  shows "handler imp options req res =
           Inr (res_send (JSON_stringify (result_json gqlResponse))
                  ((if errors gqlResponse \<noteq> None \<and> data gqlResponse = JUndefined
                    then res_status 400 else id)
                   (res_set ''Content-Type'' ''application/json'' res)),
                item_calls imp opts (req_body req))"
proof -
  have b: "(case req_body req of JArr items \<Rightarrow> items | single \<Rightarrow> [single]) = [req_body req]"
    using assms(4) by (cases "req_body req") simp_all
  have "map (item_result imp opts) [req_body req] = map Inr [gqlResponse]"
    using assms(5) by simp
  from for_loop_items [OF this] show ?thesis
    using assms(1-4) by (simp add: handler_def b)
qed

lemma handler_rejects:
  assumes "resolve_options options req = Inr opts"
      and "req_method req = ''POST''"
      and "req_body req = JArr (before @ item # after)
           \<or> (truthy (req_body req) \<and> \<not> isArray (req_body req)
               \<and> before = [] \<and> item = req_body req)"
      and "map (item_result imp opts) before = map Inr results"
      and "item_result imp opts item = Inl e"
  shows "handler imp options req res =
           Inl (e, concat (map (item_calls imp opts) before) @ item_calls imp opts item)"
proof -
  have loop: "\<And>after. for_loop imp opts (formatErrorFn imp opts) (before @ item # after) ([], []) =
      Inl (e, concat (map (item_calls imp opts) before) @ item_calls imp opts item)"
    using for_loop_raises [of imp opts "formatErrorFn imp opts" before results item e _ "[]" "[]"]
      assms(4,5)
    by (simp add: item_result_def[abs_def] item_calls_def[abs_def])
  from assms(3) show ?thesis
  proof
    assume "req_body req = JArr (before @ item # after)"
    with assms(1,2) loop [of after] show ?thesis by (simp add: handler_def)
  next
    assume s: "truthy (req_body req) \<and> \<not> isArray (req_body req)
               \<and> before = [] \<and> item = req_body req"
    then have b: "(case req_body req of JArr items \<Rightarrow> items | single \<Rightarrow> [single]) = [req_body req]"
      by (cases "req_body req") simp_all
    from s loop [of "[]"] assms(1,2) show ?thesis by (simp add: handler_def b)
  qed
qed

lemma example_factory:
  "graphqlHTTP example_imports [OptionsObject example_options]
     = Inr (handler example_imports (OptionsObject example_options))"
  by (simp add: graphqlHTTP_def)

lemma example_resolve:
  "resolve_options (OptionsObject example_options) req = Inr example_options"
  by (simp add: resolve_options_def)

lemma nat_to_string_digit: "n < 10 \<Longrightarrow> nat_to_string n = [''0123456789'' ! n]"
  by (subst nat_to_string.simps) simp

lemma stringify_elements_map:
  "stringify_elements xs = map (\<lambda>x. case JSON_stringify x of None \<Rightarrow> ''null'' | Some t \<Rightarrow> t) xs"
  by (induction xs) simp_all

lemma stringify_result_Some:
  "\<exists>t. JSON_stringify (result_json r) = Some t"
  by (simp add: result_json_def)

lemmas example_defs =
  example_imports_def example_options_def example_runQuery_def example_JSON_parse_def
  example_formatError_def fresh_response_def

lemmas handler_steps =
  item_result_def item_calls_def loop_body_def try_block_def final_params_def
  apply_formatParams_def assemble_params_def formatErrorFn_def error_result_def
  result_json_def res_send_def res_set_def res_status_def quote_def quote_char_def
  int_to_string_def

lemma loop_body_raises:
  "fst (try_block imp opts fmt item) = Inl e \<Longrightarrow>
     fst (loop_body imp opts fmt item) = error_result fmt e"
  by (cases "try_block imp opts fmt item") (auto simp: loop_body_def)

lemma try_block_raises:
  assumes "get_prop item ''query'' = Inl e
         \<or> (\<exists>src. get_prop item ''variables'' = Inr (JStr src) \<and> JSON_parse imp src = Inl e)
         \<or> (\<exists>params. assemble_params imp opts fmt item = Inr params
                     \<and> apply_formatParams opts params = Inl e)
         \<or> (\<exists>params params'. assemble_params imp opts fmt item = Inr params
                     \<and> apply_formatParams opts params = Inr params'
                     \<and> \<not> truthy (p_query params')
                     \<and> e = Error ''Must provide query string.'')
         \<or> (\<exists>params. final_params imp opts fmt item = Inr params \<and> runQuery imp params = Inl e)"
  shows "fst (try_block imp opts fmt item) = Inl e"
  using assms
proof (elim disjE exE conjE)
  assume "get_prop item ''query'' = Inl e"
  then show ?thesis by (simp add: try_block_def final_params_def assemble_params_def)
next
  fix src assume v: "get_prop item ''variables'' = Inr (JStr src)" and p: "JSON_parse imp src = Inl e"
  from v obtain kvs where "item = JObj kvs" by (cases item) auto
  with v p show ?thesis
    by (simp add: try_block_def final_params_def assemble_params_def)
next
  fix params assume "assemble_params imp opts fmt item = Inr params" "apply_formatParams opts params = Inl e"
  then show ?thesis by (simp add: try_block_def final_params_def)
next
  fix params params'
  assume "assemble_params imp opts fmt item = Inr params" "apply_formatParams opts params = Inr params'"
    "\<not> truthy (p_query params')" "e = Error ''Must provide query string.''"
  then show ?thesis by (simp add: try_block_def final_params_def)
next
  fix params assume "final_params imp opts fmt item = Inr params" "runQuery imp params = Inl e"
  then show ?thesis by (simp add: try_block_def)
qed

lemma for_loop_step:
  "loop_body imp opts fmt item = (Inr result, calls) \<Longrightarrow>
   for_loop imp opts fmt (item # rest) (responses, executed) =
     for_loop imp opts fmt rest (responses @ [result], executed @ calls)"
  by simp

lemma example_item_assembled:
  "assemble_params example_imports opts example_formatError example_item
     = Inr \<lparr> p_schema = schema opts, p_query = JStr ''{ a }'',
             p_variables = JObj [(''a'', JNum 1)], p_rootValue = rootValue opts,
             p_operationName = JUndefined, p_logFunction = logFunction opts,
             p_validationRules = validationRules opts, p_formatError = example_formatError,
             p_formatResponse = formatResponse opts \<rparr>"
  by (simp add: assemble_params_def example_item_def example_imports_def example_JSON_parse_def)

section \<open>Request-level rejections\<close>

text \<open>
  Claim C7. A request whose method is not POST is answered with status 405, the header
  \<open>Allow: POST\<close> and the fixed text, whatever its body is; the response is ended and the
  executor is not called.
\<close>

theorem method_not_allowed:
  assumes "graphqlHTTP imp [options] = Inr h"
      and "req_method req \<noteq> ''POST''"
  shows "\<exists>res'. h req res = Inr (res', [])
          \<and> statusCode res' = 405
          \<and> headers res' ''Allow'' = Some ''POST''
          \<and> sent res' = Some ''Apollo Server supports only POST requests.''
          \<and> finished res'"
proof -
  from assms(1) have h: "h = handler imp options" and "options \<noteq> Falsy"
    using factory_handler by blast+
  then obtain opts where "resolve_options options req = Inr opts"
    using resolve_options_total by blast
  with assms(2) show ?thesis
    unfolding h by (simp add: handler_def res_send_def res_status_def res_setHeader_def)
qed

theorem method_not_allowed_witness:
  "graphqlHTTP example_imports [OptionsObject example_options]
     = Inr (handler example_imports (OptionsObject example_options))
   \<and> req_method \<lparr> req_method = ''GET'', req_body = JObj [(''query'', JStr ''{ a }'')],
                   req_query = None \<rparr> \<noteq> ''POST''
   \<and> (\<exists>res'. handler example_imports (OptionsObject example_options)
               \<lparr> req_method = ''GET'', req_body = JObj [(''query'', JStr ''{ a }'')],
                 req_query = None \<rparr>
               fresh_response = Inr (res', [])
          \<and> statusCode res' = 405
          \<and> headers res' ''Allow'' = Some ''POST''
          \<and> sent res' = Some ''Apollo Server supports only POST requests.''
          \<and> finished res')"
  using example_factory
    method_not_allowed [OF example_factory,
      of "\<lparr> req_method = ''GET'', req_body = JObj [(''query'', JStr ''{ a }'')], req_query = None \<rparr>"
         fresh_response]
  by simp

text \<open>
  Claim C8. A POST request that carries no parsed body is answered with status 500 and
  the text that recalls the body parser; the response is ended and the executor is not
  called.
\<close>

theorem body_missing:
  assumes "graphqlHTTP imp [options] = Inr h"
      and "req_method req = ''POST''"
      and "req_body req = JUndefined"
  shows "\<exists>res'. h req res = Inr (res', [])
          \<and> statusCode res' = 500
          \<and> sent res' = Some ''POST body missing. Did you forget \"app.use(bodyParser.json())\"?''
          \<and> finished res'"
proof -
  from assms(1) have h: "h = handler imp options" and "options \<noteq> Falsy"
    using factory_handler by blast+
  then obtain opts where "resolve_options options req = Inr opts"
    using resolve_options_total by blast
  with assms(2,3) show ?thesis
    unfolding h by (simp add: handler_def res_send_def res_status_def)
qed

theorem body_missing_witness:
  "graphqlHTTP example_imports [OptionsObject example_options]
     = Inr (handler example_imports (OptionsObject example_options))
   \<and> req_method \<lparr> req_method = ''POST'', req_body = JUndefined, req_query = None \<rparr> = ''POST''
   \<and> req_body \<lparr> req_method = ''POST'', req_body = JUndefined, req_query = None \<rparr> = JUndefined
   \<and> (\<exists>res'. handler example_imports (OptionsObject example_options)
               \<lparr> req_method = ''POST'', req_body = JUndefined, req_query = None \<rparr>
               fresh_response = Inr (res', [])
          \<and> statusCode res' = 500
          \<and> sent res' = Some ''POST body missing. Did you forget \"app.use(bodyParser.json())\"?''
          \<and> finished res')"
  using example_factory
    body_missing [OF example_factory,
      of "\<lparr> req_method = ''POST'', req_body = JUndefined, req_query = None \<rparr>" fresh_response]
  by simp

section \<open>Construction of the handler\<close>

text \<open>
  Claim C9. Called with no argument, or with more than one, the factory raises and
  returns no handler. (With more than one argument and a configuration first, the
  message names one more than the number of arguments given.)
\<close>

theorem factory_raises:
  assumes "arguments = [] \<or> length arguments > 1"
  shows "graphqlHTTP imp arguments =
           Inl (case arguments of
                  [] \<Rightarrow> Error ''Apollo Server requires options.''
                | first # _ \<Rightarrow>
                    if first = Falsy then Error ''Apollo Server requires options.''
                    else Error (''Apollo Server expects exactly one argument, got '' @
                                nat_to_string (length arguments + 1)))"
proof (cases arguments)
  case Nil
  then show ?thesis by (simp add: graphqlHTTP_def)
next
  case (Cons first rest)
  with assms have "rest \<noteq> []" by auto
  with Cons show ?thesis by (simp add: graphqlHTTP_def)
qed

theorem factory_raises_witness:
  "graphqlHTTP example_imports [] = Inl (Error ''Apollo Server requires options.'')
   \<and> graphqlHTTP example_imports [OptionsObject example_options, OptionsObject example_options]
       = Inl (Error ''Apollo Server expects exactly one argument, got 3'')"
  using factory_raises [of "[]" example_imports]
    factory_raises [of "[OptionsObject example_options, OptionsObject example_options]" example_imports]
  by (simp add: nat_to_string_digit)

section \<open>Batches\<close>

text \<open>
  Claim C10. A POST request whose body is the empty array is answered with the content
  type \<open>application/json\<close> and the body \<open>[]\<close>; the status is left as it was, and the
  executor is not called.
\<close>

theorem empty_batch:
  assumes "graphqlHTTP imp [options] = Inr h"
      and "req_method req = ''POST''"
      and "req_body req = JArr []"
  shows "\<exists>res'. h req res = Inr (res', [])
          \<and> headers res' ''Content-Type'' = Some ''application/json''
          \<and> sent res' = Some ''[]''
          \<and> statusCode res' = statusCode res
          \<and> finished res'"
proof -
  from assms(1) have h: "h = handler imp options" and "options \<noteq> Falsy"
    using factory_handler by blast+
  then obtain opts where "resolve_options options req = Inr opts"
    using resolve_options_total by blast
  with assms(2,3) show ?thesis
    unfolding h by (simp add: handler_def res_send_def res_set_def)
qed

theorem empty_batch_witness:
  "graphqlHTTP example_imports [OptionsObject example_options]
     = Inr (handler example_imports (OptionsObject example_options))
   \<and> (\<exists>res'. handler example_imports (OptionsObject example_options)
               \<lparr> req_method = ''POST'', req_body = JArr [], req_query = None \<rparr>
               fresh_response = Inr (res', [])
          \<and> headers res' ''Content-Type'' = Some ''application/json''
          \<and> sent res' = Some ''[]''
          \<and> statusCode res' = 200
          \<and> finished res')"
  using example_factory
    empty_batch [OF example_factory,
      of "\<lparr> req_method = ''POST'', req_body = JArr [], req_query = None \<rparr>" fresh_response]
  by (simp add: fresh_response_def)

text \<open>
  Claim C1, amended. For a POST request whose body is an array of N items, provided the
  formatter returns on every error an item raises, the handler sends the serialisation of
  an array of N results, the i-th being the result of the i-th item, whether that item
  succeeded or failed; the text is a bracketed, comma-separated list of the N serialised
  results, and the status is left as it was.
\<close>

theorem batch_results_in_order:
  assumes "graphqlHTTP imp [options] = Inr h"
      and "resolve_options options req = Inr optionsObject"
      and "req_method req = ''POST''"
      and "req_body req = JArr items"
      and "\<forall>item \<in> set items.
             \<forall>e. fst (try_block imp optionsObject (formatErrorFn imp optionsObject) item) = Inl e \<longrightarrow>
               (\<exists>formatted. formatErrorFn imp optionsObject e = Inr formatted)"
  shows "\<exists>res' responses texts.
           h req res = Inr (res', concat (map (item_calls imp optionsObject) items))
         \<and> length responses = length items
         \<and> (\<forall>i < length items. item_result imp optionsObject (items ! i) = Inr (responses ! i))
         \<and> sent res' = JSON_stringify (JArr (map result_json responses))
         \<and> sent res' = Some (''['' @ join_comma texts @ '']'')
         \<and> length texts = length items
         \<and> (\<forall>i < length items. JSON_stringify (result_json (responses ! i)) = Some (texts ! i))
         \<and> headers res' ''Content-Type'' = Some ''application/json''
         \<and> statusCode res' = statusCode res
         \<and> finished res'"
proof -
  from assms(1) have h: "h = handler imp options"
    using factory_handler by blast
  from assms(5) obtain responses where
    results: "map (item_result imp optionsObject) items = map Inr responses"
    using items_results_return by blast
  then have len: "length responses = length items"
    by (metis length_map)
  have nth: "\<forall>i < length items. item_result imp optionsObject (items ! i) = Inr (responses ! i)"
  proof (intro allI impI)
    fix i assume i: "i < length items"
    then have "map (item_result imp optionsObject) items ! i = item_result imp optionsObject (items ! i)"
      by simp
    moreover from i len have "map Inr responses ! i = (Inr (responses ! i) :: js_error + GraphQLResult)"
      by simp
    ultimately show "item_result imp optionsObject (items ! i) = Inr (responses ! i)"
      using results by simp
  qed
  let ?texts = "stringify_elements (map result_json responses)"
  let ?res' = "res_send (JSON_stringify (JArr (map result_json responses)))
                 (res_set ''Content-Type'' ''application/json'' res)"
  have run: "h req res = Inr (?res', concat (map (item_calls imp optionsObject) items))"
    unfolding h using assms(2-4) results by (rule handler_batch)
  have texts: "\<forall>i < length items. JSON_stringify (result_json (responses ! i)) = Some (?texts ! i)"
  proof (intro allI impI)
    fix i assume "i < length items"
    moreover obtain t where "JSON_stringify (result_json (responses ! i)) = Some t"
      using stringify_result_Some by blast
    ultimately show "JSON_stringify (result_json (responses ! i)) = Some (?texts ! i)"
      using len by (simp add: stringify_elements_map)
  qed
  have "sent ?res' = JSON_stringify (JArr (map result_json responses))"
    by (simp add: res_send_def)
  moreover have "sent ?res' = Some (''['' @ join_comma ?texts @ '']'')"
    by (simp add: res_send_def)
  moreover have "length ?texts = length items" using len by (simp add: stringify_elements_map)
  moreover have "headers ?res' ''Content-Type'' = Some ''application/json''"
    by (simp add: res_send_def res_set_def)
  moreover have "statusCode ?res' = statusCode res" by (simp add: res_send_def res_set_def)
  moreover have "finished ?res'" by (simp add: res_send_def)
  ultimately show ?thesis using run texts len nth by blast
qed

lemma example_batch_run:
  "handler example_imports (OptionsObject example_options) example_batch fresh_response
     = Inr (\<lparr> statusCode = 200,
              headers = [''Content-Type'' \<mapsto> ''application/json''],
              sent = Some ''[{\"data\":{\"echo\":{\"a\":1}}},{\"errors\":[{\"message\":\"Must provide query string.\"}]}]'',
              finished = True \<rparr>,
            [\<lparr> p_schema = (), p_query = JStr ''{ a }'', p_variables = JObj [(''a'', JNum 1)],
               p_rootValue = JUndefined, p_operationName = JUndefined, p_logFunction = None,
               p_validationRules = None, p_formatError = example_formatError,
               p_formatResponse = None \<rparr>])"
  by (simp add: example_batch_def handler_def resolve_options_def example_defs handler_steps
        nat_to_string_digit)

theorem batch_results_in_order_witness:
  "graphqlHTTP example_imports [OptionsObject example_options]
     = Inr (handler example_imports (OptionsObject example_options))
   \<and> resolve_options (OptionsObject example_options) example_batch = Inr example_options
   \<and> req_method example_batch = ''POST''
   \<and> (\<exists>res' params.
         handler example_imports (OptionsObject example_options) example_batch fresh_response
           = Inr (res', [params])
         \<and> p_variables params = JObj [(''a'', JNum 1)]
         \<and> sent res' = Some ''[{\"data\":{\"echo\":{\"a\":1}}},{\"errors\":[{\"message\":\"Must provide query string.\"}]}]''
         \<and> statusCode res' = statusCode fresh_response)"
proof -
  have body: "req_body example_batch =
      JArr [JObj [(''query'', JStr ''{ a }''), (''variables'', JStr ''{\"a\":1}'')], JObj []]"
    and post: "req_method example_batch = ''POST''"
    by (simp_all add: example_batch_def)
  have fmt: "\<forall>item \<in> set [JObj [(''query'', JStr ''{ a }''), (''variables'', JStr ''{\"a\":1}'')], JObj []].
      \<forall>e. fst (try_block example_imports example_options
                  (formatErrorFn example_imports example_options) item) = Inl e \<longrightarrow>
        (\<exists>formatted. formatErrorFn example_imports example_options e = Inr formatted)"
    by (simp add: example_defs handler_steps)
  from batch_results_in_order [OF example_factory example_resolve post body fmt, of fresh_response]
  obtain res' calls where
    "handler example_imports (OptionsObject example_options) example_batch fresh_response
       = Inr (res', calls)"
    and "statusCode res' = statusCode fresh_response"
    by blast
  then show ?thesis
    using example_factory example_resolve post unfolding example_batch_run by auto
qed

text \<open>
  Claim C1 as stated fails. The formatter is called in the \<open>catch\<close> block with nothing
  around it, and the default formatter raises on an \<open>undefined\<close> error: when the transform
  throws \<open>undefined\<close>, a batch of two items gets no response at all, the handler raises.
\<close>

theorem batch_aborted_by_formatter:
  "graphqlHTTP example_imports [OptionsObject example_throwing_options]
     = Inr (handler example_imports (OptionsObject example_throwing_options))
   \<and> req_method example_batch_of_two = ''POST''
   \<and> req_body example_batch_of_two
       = JArr [JObj [(''query'', JStr ''{ a }'')], JObj [(''query'', JStr ''{ b }'')]]
   \<and> formatError example_throwing_options = None
   \<and> handler example_imports (OptionsObject example_throwing_options) example_batch_of_two
         fresh_response
       = Inl (Error ''Received null or undefined error.'', [])"
  by (simp add: graphqlHTTP_def example_batch_of_two_def example_throwing_options_def
        handler_def resolve_options_def example_defs handler_steps)

text \<open>
  Claim C2, amended. When a step of the processing of a batch item raises (the first
  property read, the parse of textual variables, the transform of the parameters, the
  check of the query, or the executor) and the formatter of the request (the configured
  one if there is one, else the default one) returns on the raised value, the iteration
  pushes the failure result whose only error is the formatted value and the loop goes on
  with the next item; when the other items have results of their own, the response holds
  them unchanged around the failure result.
\<close>

theorem item_failure_is_local:
  assumes "graphqlHTTP imp [options] = Inr h"
      and "resolve_options options req = Inr optionsObject"
      and "req_method req = ''POST''"
      and "req_body req = JArr (before @ item # after)"
      and "fmt = formatErrorFn imp optionsObject"
      and "get_prop item ''query'' = Inl e
         \<or> (\<exists>src. get_prop item ''variables'' = Inr (JStr src) \<and> JSON_parse imp src = Inl e)
         \<or> (\<exists>params. assemble_params imp optionsObject fmt item = Inr params
                     \<and> apply_formatParams optionsObject params = Inl e)
         \<or> (\<exists>params params'. assemble_params imp optionsObject fmt item = Inr params
                     \<and> apply_formatParams optionsObject params = Inr params'
                     \<and> \<not> truthy (p_query params')
                     \<and> e = Error ''Must provide query string.'')
         \<or> (\<exists>params. final_params imp optionsObject fmt item = Inr params
                     \<and> runQuery imp params = Inl e)"
      and "fmt e = Inr formatted"
  shows "fmt = (case formatError optionsObject of
                  Some f \<Rightarrow> f | None \<Rightarrow> graphql_formatError imp)
       \<and> item_result imp optionsObject item
           = Inr \<lparr> data = JUndefined, errors = Some [formatted] \<rparr>
       \<and> (\<forall>responses executed.
             for_loop imp optionsObject fmt (item # after) (responses, executed)
               = for_loop imp optionsObject fmt after
                   (responses @ [\<lparr> data = JUndefined, errors = Some [formatted] \<rparr>],
                    executed @ item_calls imp optionsObject item))
       \<and> (\<forall>results_before results_after.
             map (item_result imp optionsObject) before = map Inr results_before
             \<and> map (item_result imp optionsObject) after = map Inr results_after \<longrightarrow>
             (\<exists>res'.
                h req res =
                  Inr (res', concat (map (item_calls imp optionsObject) before)
                             @ item_calls imp optionsObject item
                             @ concat (map (item_calls imp optionsObject) after))
              \<and> sent res' =
                  JSON_stringify (JArr (map result_json
                    (results_before
                     @ [\<lparr> data = JUndefined, errors = Some [formatted] \<rparr>]
                     @ results_after)))
              \<and> statusCode res' = statusCode res
              \<and> finished res'))"
proof -
  let ?failure = "\<lparr> data = JUndefined, errors = Some [formatted] \<rparr>"
  from assms(1) have h: "h = handler imp options"
    using factory_handler by blast
  from assms(6) have "fst (try_block imp optionsObject fmt item) = Inl e"
    by (rule try_block_raises)
  then have "fst (loop_body imp optionsObject fmt item) = error_result fmt e"
    by (rule loop_body_raises)
  with assms(7) have fst_body: "fst (loop_body imp optionsObject fmt item) = Inr ?failure"
    by (simp add: error_result_def)
  then have item: "item_result imp optionsObject item = Inr ?failure"
    by (simp add: item_result_def assms(5))
  have body: "loop_body imp optionsObject fmt item = (Inr ?failure, item_calls imp optionsObject item)"
    using fst_body by (simp add: item_calls_def assms(5) prod_eq_iff)
  have step: "\<forall>responses executed.
             for_loop imp optionsObject fmt (item # after) (responses, executed)
               = for_loop imp optionsObject fmt after
                   (responses @ [?failure], executed @ item_calls imp optionsObject item)"
    using for_loop_step [OF body] by blast
  have response: "\<forall>results_before results_after.
             map (item_result imp optionsObject) before = map Inr results_before
             \<and> map (item_result imp optionsObject) after = map Inr results_after \<longrightarrow>
             (\<exists>res'.
                h req res =
                  Inr (res', concat (map (item_calls imp optionsObject) before)
                             @ item_calls imp optionsObject item
                             @ concat (map (item_calls imp optionsObject) after))
              \<and> sent res' =
                  JSON_stringify (JArr (map result_json
                    (results_before @ [?failure] @ results_after)))
              \<and> statusCode res' = statusCode res
              \<and> finished res')"
  proof (intro allI impI)
    fix results_before results_after
    assume "map (item_result imp optionsObject) before = map Inr results_before
          \<and> map (item_result imp optionsObject) after = map Inr results_after"
    with item have "map (item_result imp optionsObject) (before @ item # after)
        = map Inr (results_before @ [?failure] @ results_after)"
      by simp
    from handler_batch [OF assms(2-4) this, of res]
    show "\<exists>res'.
                h req res =
                  Inr (res', concat (map (item_calls imp optionsObject) before)
                             @ item_calls imp optionsObject item
                             @ concat (map (item_calls imp optionsObject) after))
              \<and> sent res' =
                  JSON_stringify (JArr (map result_json
                    (results_before @ [?failure] @ results_after)))
              \<and> statusCode res' = statusCode res
              \<and> finished res'"
      unfolding h by (simp add: res_send_def res_set_def)
  qed
  have "fmt = (case formatError optionsObject of
                  Some f \<Rightarrow> f | None \<Rightarrow> graphql_formatError imp)"
    by (simp add: assms(5) formatErrorFn_def)
  with item step response show ?thesis by blast
qed

lemma example_failing_batch_run:
  "handler example_imports (OptionsObject example_options) example_failing_batch fresh_response
     = Inr (\<lparr> statusCode = 200,
              headers = [''Content-Type'' \<mapsto> ''application/json''],
              sent = Some ''[{\"data\":{\"echo\":{\"n\":7}}},{\"errors\":[{\"message\":\"query\"}]},{\"data\":{}}]'',
              finished = True \<rparr>,
            [\<lparr> p_schema = (), p_query = JStr ''{ a }'', p_variables = JObj [(''n'', JNum 7)],
               p_rootValue = JUndefined, p_operationName = JUndefined, p_logFunction = None,
               p_validationRules = None, p_formatError = example_formatError,
               p_formatResponse = None \<rparr>,
             \<lparr> p_schema = (), p_query = JStr ''{ b }'', p_variables = JUndefined,
               p_rootValue = JUndefined, p_operationName = JUndefined, p_logFunction = None,
               p_validationRules = None, p_formatError = example_formatError,
               p_formatResponse = None \<rparr>])"
  by (simp add: example_failing_batch_def handler_def resolve_options_def example_defs
        handler_steps nat_to_string_digit)

theorem item_failure_is_local_witness:
  "graphqlHTTP example_imports [OptionsObject example_options]
     = Inr (handler example_imports (OptionsObject example_options))
   \<and> resolve_options (OptionsObject example_options) example_failing_batch = Inr example_options
   \<and> req_method example_failing_batch = ''POST''
   \<and> get_prop JNull ''query'' = Inl (TypeError ''query'')
   \<and> formatErrorFn example_imports example_options (TypeError ''query'')
       = Inr (JObj [(''message'', JStr ''query'')])
   \<and> (\<exists>res' first last.
         handler example_imports (OptionsObject example_options) example_failing_batch
           fresh_response = Inr (res', [first, last])
         \<and> p_query first = JStr ''{ a }'' \<and> p_query last = JStr ''{ b }''
         \<and> sent res' = Some ''[{\"data\":{\"echo\":{\"n\":7}}},{\"errors\":[{\"message\":\"query\"}]},{\"data\":{}}]''
         \<and> statusCode res' = 200)"
proof -
  have post: "req_method example_failing_batch = ''POST''"
    and body: "req_body example_failing_batch =
       JArr ([JObj [(''query'', JStr ''{ a }''), (''variables'', JObj [(''n'', JNum 7)])]]
             @ JNull # [JObj [(''query'', JStr ''{ b }'')]])"
    by (simp_all add: example_failing_batch_def)
  have raises: "get_prop JNull ''query'' = Inl (TypeError ''query'')" by simp
  have formatted: "formatErrorFn example_imports example_options (TypeError ''query'')
       = Inr (JObj [(''message'', JStr ''query'')])"
    by (simp add: formatErrorFn_def example_defs)
  have siblings:
    "map (item_result example_imports example_options)
       [JObj [(''query'', JStr ''{ a }''), (''variables'', JObj [(''n'', JNum 7)])]]
     = map Inr [\<lparr> data = JObj [(''echo'', JObj [(''n'', JNum 7)])], errors = None \<rparr>]
     \<and> map (item_result example_imports example_options) [JObj [(''query'', JStr ''{ b }'')]]
     = map Inr [\<lparr> data = JObj [(''echo'', JUndefined)], errors = None \<rparr>]"
    by (simp add: example_defs handler_steps)
  from item_failure_is_local [OF example_factory example_resolve post body refl disjI1 formatted,
      OF raises, of fresh_response] siblings
  obtain res' calls where
    "handler example_imports (OptionsObject example_options) example_failing_batch fresh_response
       = Inr (res', calls)"
    by blast
  then show ?thesis
    using example_factory example_resolve post raises formatted
    unfolding example_failing_batch_run by auto
qed

text \<open>
  Claim C2 as stated fails. In a batch of three queries whose second item makes the
  transform throw \<open>undefined\<close>, the default formatter raises in the \<open>catch\<close> block: the
  handler raises after the executor call of the first item, the third item is not
  processed and nothing is sent.
\<close>

theorem batch_aborted_by_one_item:
  "graphqlHTTP example_imports [OptionsObject example_selective_options]
     = Inr (handler example_imports (OptionsObject example_selective_options))
   \<and> req_method example_batch_of_three = ''POST''
   \<and> req_body example_batch_of_three
       = JArr ([JObj [(''query'', JStr ''{ a }'')]] @ JObj [(''query'', JStr ''{ b }'')]
               # [JObj [(''query'', JStr ''{ c }'')]])
   \<and> fst (try_block example_imports example_selective_options
             (formatErrorFn example_imports example_selective_options)
             (JObj [(''query'', JStr ''{ b }'')]))
       = Inl (Thrown JUndefined)
   \<and> handler example_imports (OptionsObject example_selective_options) example_batch_of_three
         fresh_response
       = Inl (Error ''Received null or undefined error.'',
              [\<lparr> p_schema = (), p_query = JStr ''{ a }'', p_variables = JUndefined,
                 p_rootValue = JUndefined, p_operationName = JUndefined, p_logFunction = None,
                 p_validationRules = None, p_formatError = example_formatError,
                 p_formatResponse = None \<rparr>])"
  by (simp add: graphqlHTTP_def example_batch_of_three_def example_selective_options_def
        handler_def resolve_options_def example_defs handler_steps)

section \<open>Single requests\<close>

text \<open>
  Claim C3, amended. For a POST request whose body is present and not an array, provided
  the formatter returns on the error the item raises (if it raises one), the handler
  sends the serialisation of the one result, and sets the status to 400 exactly when that
  result has errors and no data; otherwise the status is left as it was.
\<close>

theorem single_response_status:
  assumes "graphqlHTTP imp [options] = Inr h"
      and "resolve_options options req = Inr optionsObject"
      and "req_method req = ''POST''"
      and "truthy (req_body req)"
      and "\<not> isArray (req_body req)"
      and "\<forall>e. fst (try_block imp optionsObject (formatErrorFn imp optionsObject) (req_body req))
                 = Inl e \<longrightarrow>
               (\<exists>formatted. formatErrorFn imp optionsObject e = Inr formatted)"
  shows "\<exists>res' gqlResponse body.
           h req res = Inr (res', item_calls imp optionsObject (req_body req))
         \<and> item_result imp optionsObject (req_body req) = Inr gqlResponse
         \<and> JSON_stringify (result_json gqlResponse) = Some body
         \<and> sent res' = Some body
         \<and> finished res'
         \<and> headers res' ''Content-Type'' = Some ''application/json''
         \<and> statusCode res' =
               (if errors gqlResponse \<noteq> None \<and> data gqlResponse = JUndefined then 400
                else statusCode res)"
proof -
  from assms(1) have h: "h = handler imp options"
    using factory_handler by blast
  from assms(6) obtain gqlResponse where
    r: "item_result imp optionsObject (req_body req) = Inr gqlResponse"
    using item_result_returns by blast
  obtain body where body: "JSON_stringify (result_json gqlResponse) = Some body"
    using stringify_result_Some by blast
  show ?thesis
    unfolding h handler_single [OF assms(2-5) r] using body r
    by (simp add: res_send_def res_set_def res_status_def)
qed

lemma example_single_run:
  "handler example_imports (OptionsObject example_options) example_single fresh_response
     = Inr (\<lparr> statusCode = 200,
              headers = [''Content-Type'' \<mapsto> ''application/json''],
              sent = Some ''{\"data\":{\"echo\":{}}}'',
              finished = True \<rparr>,
            [\<lparr> p_schema = (), p_query = JStr ''{ a }'', p_variables = JObj [],
               p_rootValue = JUndefined, p_operationName = JUndefined, p_logFunction = None,
               p_validationRules = None, p_formatError = example_formatError,
               p_formatResponse = None \<rparr>])"
  by (simp add: example_single_def handler_def resolve_options_def example_defs handler_steps)

lemma example_single_no_query_run:
  "handler example_imports (OptionsObject example_options) example_single_no_query fresh_response
     = Inr (\<lparr> statusCode = 400,
              headers = [''Content-Type'' \<mapsto> ''application/json''],
              sent = Some ''{\"errors\":[{\"message\":\"Must provide query string.\"}]}'',
              finished = True \<rparr>, [])"
  by (simp add: example_single_no_query_def handler_def resolve_options_def example_defs handler_steps)

theorem single_response_status_witness:
  "graphqlHTTP example_imports [OptionsObject example_options]
     = Inr (handler example_imports (OptionsObject example_options))
   \<and> resolve_options (OptionsObject example_options) example_single = Inr example_options
   \<and> req_method example_single = ''POST''
   \<and> truthy (req_body example_single) \<and> \<not> isArray (req_body example_single)
   \<and> req_method example_single_no_query = ''POST''
   \<and> truthy (req_body example_single_no_query) \<and> \<not> isArray (req_body example_single_no_query)
   \<and> (\<exists>res' calls.
         handler example_imports (OptionsObject example_options) example_single fresh_response
           = Inr (res', calls)
         \<and> sent res' = Some ''{\"data\":{\"echo\":{}}}''
         \<and> statusCode res' = 200)
   \<and> (\<exists>res'.
         handler example_imports (OptionsObject example_options) example_single_no_query
           fresh_response = Inr (res', [])
         \<and> sent res' = Some ''{\"errors\":[{\"message\":\"Must provide query string.\"}]}''
         \<and> statusCode res' = 400)"
proof -
  have a: "req_method example_single = ''POST''" "truthy (req_body example_single)"
      "\<not> isArray (req_body example_single)"
    by (simp_all add: example_single_def)
  have b: "req_method example_single_no_query = ''POST''"
      "truthy (req_body example_single_no_query)" "\<not> isArray (req_body example_single_no_query)"
    by (simp_all add: example_single_no_query_def)
  have fa: "\<forall>e. fst (try_block example_imports example_options
                  (formatErrorFn example_imports example_options) (req_body example_single))
                 = Inl e \<longrightarrow>
               (\<exists>formatted. formatErrorFn example_imports example_options e = Inr formatted)"
    by (simp add: example_single_def example_defs handler_steps)
  have fb: "\<forall>e. fst (try_block example_imports example_options
                  (formatErrorFn example_imports example_options) (req_body example_single_no_query))
                 = Inl e \<longrightarrow>
               (\<exists>formatted. formatErrorFn example_imports example_options e = Inr formatted)"
    by (simp add: example_single_no_query_def example_defs handler_steps)
  from single_response_status [OF example_factory example_resolve a fa, of fresh_response]
  obtain res1 calls1 where
    "handler example_imports (OptionsObject example_options) example_single fresh_response
       = Inr (res1, calls1)"
    by blast
  moreover
  from single_response_status [OF example_factory example_resolve b fb, of fresh_response]
  obtain res2 calls2 where
    "handler example_imports (OptionsObject example_options) example_single_no_query fresh_response
       = Inr (res2, calls2)"
    by blast
  ultimately show ?thesis
    using example_factory example_resolve a b
    unfolding example_single_run example_single_no_query_run by auto
qed

text \<open>
  Claim C3 as stated fails. For a single query whose transform throws \<open>undefined\<close>, the
  default formatter raises in the \<open>catch\<close> block and the handler raises: no body is sent
  and no status is set.
\<close>

theorem single_request_aborted_by_formatter:
  "graphqlHTTP example_imports [OptionsObject example_throwing_options]
     = Inr (handler example_imports (OptionsObject example_throwing_options))
   \<and> req_method example_query = ''POST''
   \<and> req_body example_query = JObj [(''query'', JStr ''{ a }'')]
   \<and> truthy (req_body example_query) \<and> \<not> isArray (req_body example_query)
   \<and> handler example_imports (OptionsObject example_throwing_options) example_query
         fresh_response
       = Inl (Error ''Received null or undefined error.'', [])"
  by (simp add: graphqlHTTP_def example_query_def example_throwing_options_def
        handler_def resolve_options_def example_defs handler_steps)

section \<open>The processing of one item\<close>



text \<open>
  Claim C6. The presence of the query is checked on the parameters the transform
  returned: when their query is absent or empty, the item raises
  \<open>Must provide query string.\<close>, the executor is not called for it, and the \<open>catch\<close>
  block makes of that error the item's failure result.
\<close>

theorem query_checked_after_transform:
  assumes "assemble_params imp optionsObject fmt item = Inr params"
      and "apply_formatParams optionsObject params = Inr params'"
      and "p_query params' = JUndefined \<or> p_query params' = JStr []"
  shows "try_block imp optionsObject fmt item = (Inl (Error ''Must provide query string.''), [])
       \<and> loop_body imp optionsObject fmt item
           = (error_result fmt (Error ''Must provide query string.''), [])
       \<and> (\<forall>formatted. fmt (Error ''Must provide query string.'') = Inr formatted \<longrightarrow>
             loop_body imp optionsObject fmt item
               = (Inr \<lparr> data = JUndefined, errors = Some [formatted] \<rparr>, []))"
  using assms
  by (auto simp: try_block_def final_params_def loop_body_def error_result_def)

theorem query_checked_after_transform_witness:
  "(\<exists>params params'.
      assemble_params example_imports example_blanking_options example_formatError example_item
        = Inr params
      \<and> p_query params = JStr ''{ a }''
      \<and> apply_formatParams example_blanking_options params = Inr params'
      \<and> p_query params' = JStr [])
   \<and> try_block example_imports example_blanking_options example_formatError example_item
       = (Inl (Error ''Must provide query string.''), [])
   \<and> loop_body example_imports example_blanking_options example_formatError example_item
       = (Inr \<lparr> data = JUndefined,
                errors = Some [JObj [(''message'', JStr ''Must provide query string.'')]] \<rparr>, [])"
proof -
  let ?params = "\<lparr> p_schema = schema example_blanking_options, p_query = JStr ''{ a }'',
             p_variables = JObj [(''a'', JNum 1)], p_rootValue = rootValue example_blanking_options,
             p_operationName = JUndefined, p_logFunction = logFunction example_blanking_options,
             p_validationRules = validationRules example_blanking_options,
             p_formatError = example_formatError,
             p_formatResponse = formatResponse example_blanking_options \<rparr>"
  have t: "apply_formatParams example_blanking_options ?params = Inr (?params \<lparr> p_query := JStr [] \<rparr>)"
    by (simp add: apply_formatParams_def example_blanking_options_def)
  have e: "p_query (?params \<lparr> p_query := JStr [] \<rparr>) = JUndefined
         \<or> p_query (?params \<lparr> p_query := JStr [] \<rparr>) = JStr []"
    by simp
  have f: "example_formatError (Error ''Must provide query string.'')
         = Inr (JObj [(''message'', JStr ''Must provide query string.'')])"
    by (simp add: example_formatError_def)
  from query_checked_after_transform [OF example_item_assembled t e] f
  have "try_block example_imports example_blanking_options example_formatError example_item
       = (Inl (Error ''Must provide query string.''), [])"
    and "loop_body example_imports example_blanking_options example_formatError example_item
       = (Inr \<lparr> data = JUndefined,
                errors = Some [JObj [(''message'', JStr ''Must provide query string.'')]] \<rparr>, [])"
    by blast+
  moreover have "p_query ?params = JStr ''{ a }''" by simp
  moreover have "p_query (?params \<lparr> p_query := JStr [] \<rparr>) = JStr []" by simp
  ultimately show ?thesis
    using example_item_assembled [of example_blanking_options] t by blast
qed

text \<open>
  The check looks at the transformed parameters only: an item without a query passes it
  when the transform supplies one.
\<close>

lemma query_supplied_by_transform:
  "\<exists>params. loop_body example_imports example_filling_options example_formatError (JObj [])
     = (Inr \<lparr> data = JObj [(''echo'', JUndefined)], errors = None \<rparr>, [params])
     \<and> p_query params = JStr ''{ stored }''"
  by (simp add: loop_body_def try_block_def final_params_def assemble_params_def
        apply_formatParams_def example_filling_options_def example_options_def
        example_imports_def example_runQuery_def)

section \<open>The explorer page\<close>

text \<open>
  Claim C4 says that a request without a \<open>variables\<close> parameter renders the configured
  default variables. The middleware does not: the absent parameter is replaced by the
  text \<open>{}\<close>, which parses to an object, and an object is truthy, so the configured
  \<open>variables\<close> are never reached. Whenever \<open>JSON.parse\<close> maps \<open>{}\<close> to the empty
  object, such a request renders the empty object, whatever the configuration holds.
\<close>

theorem explorer_ignores_default_variables:
  assumes "JSON_parse imp ''{}'' = Inr (JObj [])"
      and "map_of (case req_query req of None \<Rightarrow> [] | Some params \<Rightarrow> params) ''variables'' = None"
  shows "\<exists>d. explorer_data imp options req = Inr d
           \<and> g_variables d = JObj []
           \<and> renderGraphiQL imp options req res =
               Inr (res_send (Some (GraphiQL_renderGraphiQL imp d))
                      (res_set ''Content-Type'' ''text/html'' res))"
  using assms
  by (simp add: renderGraphiQL_def explorer_data_def query_param_def js_or_def Let_def)

theorem explorer_ignores_default_variables_witness:
  "JSON_parse example_imports ''{}'' = Inr (JObj [])
   \<and> g_variables example_explorer_options = JObj [(''a'', JNum 1)]
   \<and> explorer_data example_imports example_explorer_options example_explorer_request
       = Inr \<lparr> g_endpointURL = ''/graphql'', g_query = JStr ''{ a }'',
               g_variables = JObj [], g_operationName = JStr ''Op'' \<rparr>
   \<and> explorer_data example_imports example_explorer_options example_explorer_request_foo
       = Inr \<lparr> g_endpointURL = ''/graphql'', g_query = JStr ''foo'',
               g_variables = JObj [], g_operationName = JStr ''Op'' \<rparr>
   \<and> (\<exists>res'. renderGraphiQL example_imports example_explorer_options example_explorer_request
                fresh_response = Inr res'
             \<and> sent res' = Some ''{\"endpointURL\":\"/graphql\",\"query\":\"{ a }\",\"variables\":{},\"operationName\":\"Op\"}'')"
proof -
  have p: "JSON_parse example_imports ''{}'' = Inr (JObj [])"
    by (simp add: example_imports_def example_JSON_parse_def)
  have q: "map_of (case req_query example_explorer_request of None \<Rightarrow> [] | Some params \<Rightarrow> params)
             ''variables'' = None"
    by (simp add: example_explorer_request_def)
  from explorer_ignores_default_variables [OF p q, of example_explorer_options fresh_response]
  obtain d where "explorer_data example_imports example_explorer_options example_explorer_request = Inr d"
    and "g_variables d = JObj []"
    and "renderGraphiQL example_imports example_explorer_options example_explorer_request fresh_response =
               Inr (res_send (Some (GraphiQL_renderGraphiQL example_imports d))
                      (res_set ''Content-Type'' ''text/html'' fresh_response))"
    by blast
  moreover have "explorer_data example_imports example_explorer_options example_explorer_request
       = Inr \<lparr> g_endpointURL = ''/graphql'', g_query = JStr ''{ a }'',
               g_variables = JObj [], g_operationName = JStr ''Op'' \<rparr>"
    by (simp add: explorer_data_def example_explorer_options_def example_explorer_request_def
          query_param_def js_or_def example_imports_def example_JSON_parse_def)
  moreover have "explorer_data example_imports example_explorer_options example_explorer_request_foo
       = Inr \<lparr> g_endpointURL = ''/graphql'', g_query = JStr ''foo'',
               g_variables = JObj [], g_operationName = JStr ''Op'' \<rparr>"
    by (simp add: explorer_data_def example_explorer_options_def example_explorer_request_foo_def
          query_param_def js_or_def example_imports_def example_JSON_parse_def)
  ultimately show ?thesis
    using p
    by (auto simp: example_explorer_options_def res_send_def example_imports_def
          example_renderPage_def quote_def quote_char_def)
qed

text \<open>
  The other two fields do fall back: \<open>query\<close> and \<open>operationName\<close> are the request's
  parameter when it is supplied and not empty, and the configured default otherwise.
\<close>

theorem explorer_query_and_operationName:
  assumes "explorer_data imp options req = Inr d"
      and "q = (case req_query req of None \<Rightarrow> [] | Some params \<Rightarrow> params)"
  shows "g_endpointURL d = g_endpointURL options
       \<and> g_query d = (case map_of q ''query'' of
                        None \<Rightarrow> g_query options
                      | Some v \<Rightarrow> if v = [] then g_query options else JStr v)
       \<and> g_operationName d = (case map_of q ''operationName'' of
                        None \<Rightarrow> g_operationName options
                      | Some v \<Rightarrow> if v = [] then g_operationName options else JStr v)"
  using assms
  by (auto simp: explorer_data_def Let_def query_param_def js_or_def
        split: sum.splits option.splits)


theorem explorer_query_and_operationName_witness:
  "explorer_data example_imports example_explorer_options example_explorer_request_foo
     = Inr \<lparr> g_endpointURL = ''/graphql'', g_query = JStr ''foo'',
             g_variables = JObj [], g_operationName = JStr ''Op'' \<rparr>
   \<and> g_query \<lparr> g_endpointURL = ''/graphql'', g_query = JStr ''foo'',
               g_variables = JObj [], g_operationName = JStr ''Op'' \<rparr> = JStr ''foo''
   \<and> g_operationName \<lparr> g_endpointURL = ''/graphql'', g_query = JStr ''foo'',
               g_variables = JObj [], g_operationName = JStr ''Op'' \<rparr>
       = g_operationName example_explorer_options"
proof -
  have d: "explorer_data example_imports example_explorer_options example_explorer_request_foo
     = Inr \<lparr> g_endpointURL = ''/graphql'', g_query = JStr ''foo'',
             g_variables = JObj [], g_operationName = JStr ''Op'' \<rparr>"
    by (simp add: explorer_data_def example_explorer_options_def example_explorer_request_foo_def
          query_param_def js_or_def example_imports_def example_JSON_parse_def)
  from explorer_query_and_operationName [OF d refl] d show ?thesis
    by (simp add: example_explorer_request_foo_def)
qed

section \<open>When the handler answers, and when it raises\<close>

text \<open>
  When the formatter of the request returns on every error, the handler the factory
  returned does not raise, whatever the request: it sends a body and ends the response.
  In particular the read of \<open>responses[0]\<close> on line 129 always finds a result.
\<close>

theorem handler_always_responds:
  assumes "graphqlHTTP imp [options] = Inr h"
      and "resolve_options options req = Inr optionsObject"
      and "\<forall>e. \<exists>formatted. formatErrorFn imp optionsObject e = Inr formatted"
  shows "\<exists>res' calls body. h req res = Inr (res', calls) \<and> sent res' = Some body \<and> finished res'"
proof -
  from assms(1) have h: "h = handler imp options"
    using factory_handler by blast
  note opts = assms(2)
  have returns: "\<And>item. \<exists>r. item_result imp optionsObject item = Inr r"
    using assms(3) item_result_returns by blast
  show ?thesis
  proof (cases "req_method req = ''POST'' \<and> truthy (req_body req)")
    case False
    with opts show ?thesis
      unfolding h by (auto simp: handler_def res_send_def)
  next
    case True
    show ?thesis
    proof (cases "isArray (req_body req)")
      case True
      then obtain items where items: "req_body req = JArr items"
        by (cases "req_body req") simp_all
      from assms(3) obtain results where "map (item_result imp optionsObject) items = map Inr results"
        using items_results_return [of items imp optionsObject] by blast
      from handler_batch [OF opts _ items this, of res] \<open>req_method req = ''POST'' \<and> truthy (req_body req)\<close>
      show ?thesis unfolding h by (simp add: res_send_def)
    next
      case False
      obtain r where r: "item_result imp optionsObject (req_body req) = Inr r"
        using returns by blast
      obtain body where "JSON_stringify (result_json r) = Some body"
        using stringify_result_Some by blast
      with handler_single [OF opts _ _ False r, of res] True
      show ?thesis unfolding h by (simp add: res_send_def)
    qed
  qed
qed

theorem handler_always_responds_witness:
  "graphqlHTTP example_imports [OptionsObject example_total_options]
     = Inr (handler example_imports (OptionsObject example_total_options))
   \<and> resolve_options (OptionsObject example_total_options) example_single_no_query
       = Inr example_total_options
   \<and> (\<exists>res' calls.
         handler example_imports (OptionsObject example_total_options) example_single_no_query
           fresh_response = Inr (res', calls)
         \<and> sent res' = Some ''{\"errors\":[{\"message\":\"failed\"}]}'' \<and> finished res')"
proof -
  have f: "graphqlHTTP example_imports [OptionsObject example_total_options]
     = Inr (handler example_imports (OptionsObject example_total_options))"
    by (simp add: graphqlHTTP_def)
  have r: "resolve_options (OptionsObject example_total_options) example_single_no_query
     = Inr example_total_options"
    by (simp add: resolve_options_def)
  have t: "\<forall>e. \<exists>formatted. formatErrorFn example_imports example_total_options e = Inr formatted"
    by (simp add: formatErrorFn_def example_total_options_def)
  have run: "handler example_imports (OptionsObject example_total_options) example_single_no_query
           fresh_response
     = Inr (\<lparr> statusCode = 400,
              headers = [''Content-Type'' \<mapsto> ''application/json''],
              sent = Some ''{\"errors\":[{\"message\":\"failed\"}]}'',
              finished = True \<rparr>, [])"
    by (simp add: example_single_no_query_def example_total_options_def handler_def
          resolve_options_def example_defs handler_steps)
  from handler_always_responds [OF f r t, of fresh_response]
  obtain res' calls where
    "handler example_imports (OptionsObject example_total_options) example_single_no_query
           fresh_response = Inr (res', calls)"
    by blast
  then show ?thesis using f r unfolding run by auto
qed

text \<open>
  When the formatter raises on the error of a batch item, the handler raises what the
  formatter raised: nothing is sent, the items after it are not processed, and the
  executor calls made are those of the items before it and of the item itself.
\<close>

theorem formatter_raise_rejects:
  assumes "graphqlHTTP imp [options] = Inr h"
      and "resolve_options options req = Inr optionsObject"
      and "req_method req = ''POST''"
      and "req_body req = JArr (before @ item # after)"
      and "map (item_result imp optionsObject) before = map Inr results"
      and "fst (try_block imp optionsObject (formatErrorFn imp optionsObject) item) = Inl e"
      and "formatErrorFn imp optionsObject e = Inl e'"
  shows "h req res =
           Inl (e', concat (map (item_calls imp optionsObject) before)
                    @ item_calls imp optionsObject item)"
proof -
  from assms(1) have h: "h = handler imp options"
    using factory_handler by blast
  from assms(6,7) have "item_result imp optionsObject item = Inl e'"
    by (simp add: item_result_cases error_result_def)
  from handler_rejects [OF assms(2,3) disjI1 assms(5) this, OF assms(4)]
  show ?thesis unfolding h .
qed

theorem formatter_raise_rejects_witness:
  "graphqlHTTP example_imports [OptionsObject example_selective_options]
     = Inr (handler example_imports (OptionsObject example_selective_options))
   \<and> req_method example_batch_of_three = ''POST''
   \<and> (\<exists>params.
         handler example_imports (OptionsObject example_selective_options) example_batch_of_three
           fresh_response
         = Inl (Error ''Received null or undefined error.'', [params])
         \<and> p_query params = JStr ''{ a }'')"
proof -
  have f: "graphqlHTTP example_imports [OptionsObject example_selective_options]
     = Inr (handler example_imports (OptionsObject example_selective_options))"
    by (simp add: graphqlHTTP_def)
  have r: "resolve_options (OptionsObject example_selective_options) example_batch_of_three
     = Inr example_selective_options"
    by (simp add: resolve_options_def)
  have post: "req_method example_batch_of_three = ''POST''"
    and body: "req_body example_batch_of_three
       = JArr ([JObj [(''query'', JStr ''{ a }'')]] @ JObj [(''query'', JStr ''{ b }'')]
               # [JObj [(''query'', JStr ''{ c }'')]])"
    by (simp_all add: example_batch_of_three_def)
  have before: "map (item_result example_imports example_selective_options)
                  [JObj [(''query'', JStr ''{ a }'')]]
      = map Inr [\<lparr> data = JObj [(''echo'', JUndefined)], errors = None \<rparr>]"
    by (simp add: example_selective_options_def example_defs handler_steps)
  have raised: "fst (try_block example_imports example_selective_options
             (formatErrorFn example_imports example_selective_options)
             (JObj [(''query'', JStr ''{ b }'')]))
       = Inl (Thrown JUndefined)"
    by (simp add: example_selective_options_def example_defs handler_steps)
  have fmt: "formatErrorFn example_imports example_selective_options (Thrown JUndefined)
       = Inl (Error ''Received null or undefined error.'')"
    by (simp add: example_selective_options_def example_defs formatErrorFn_def)
  have calls: "item_calls example_imports example_selective_options (JObj [(''query'', JStr ''{ a }'')])
       = [\<lparr> p_schema = (), p_query = JStr ''{ a }'', p_variables = JUndefined,
                 p_rootValue = JUndefined, p_operationName = JUndefined, p_logFunction = None,
                 p_validationRules = None, p_formatError = example_formatError,
                 p_formatResponse = None \<rparr>]"
     and none: "item_calls example_imports example_selective_options (JObj [(''query'', JStr ''{ b }'')]) = []"
    by (simp_all add: example_selective_options_def example_defs handler_steps)
  from formatter_raise_rejects [OF f r post body before raised fmt, of fresh_response]
  show ?thesis using f post by (simp add: calls none)
qed

end
